theory Spec2Isabelle
  imports Main "HOL-Library.Sublist"
begin

section \<open>Python values\<close>

text \<open>
  A Python \<open>str\<close> is a sequence of Unicode code points and \<open>len\<close> counts code points,
  so a string is a list of code points here. \<open>lit\<close> turns an ASCII literal of the
  source into such a list.
\<close>

type_synonym pychar = nat
type_synonym pystr = "pychar list"

definition lit :: "string \<Rightarrow> pystr" where
  "lit s = map of_char s"

text \<open>Characters of the source that are written by code point here.\<close>

definition NEWLINE :: pychar where "NEWLINE = 0x0A"
definition DQUOTE :: pychar where "DQUOTE = 0x22"
definition SQUOTE :: pychar where "SQUOTE = 0x27"
definition CHECK_MARK :: pychar where "CHECK_MARK = 0x2705"
definition CROSS_MARK :: pychar where "CROSS_MARK = 0x274C"

text \<open>\<open>str(n)\<close> of a non-negative and of any integer: decimal digits.\<close>

fun str_nat :: "nat \<Rightarrow> pystr" where
  "str_nat n = (if n < 10 then [48 + n] else str_nat (n div 10) @ [48 + n mod 10])"

declare str_nat.simps [simp del]

definition str_int :: "int \<Rightarrow> pystr" where
  "str_int i = (if i < 0 then lit ''-'' @ str_nat (nat (- i)) else str_nat (nat i))"

section \<open>Tag validation\<close>

text \<open>The character class \<open>[A-Za-z0-9=@_.-]\<close> of \<open>valid_pattern\<close>.\<close>

definition tag_char :: "pychar \<Rightarrow> bool" where
  "tag_char c \<longleftrightarrow>
     (of_char CHR ''A'' \<le> c \<and> c \<le> of_char CHR ''Z'') \<or>
     (of_char CHR ''a'' \<le> c \<and> c \<le> of_char CHR ''z'') \<or>
     (of_char CHR ''0'' \<le> c \<and> c \<le> of_char CHR ''9'') \<or>
     c = of_char CHR ''='' \<or> c = of_char CHR ''@'' \<or> c = of_char CHR ''_'' \<or>
     c = of_char CHR ''.'' \<or> c = of_char CHR ''-''"

text \<open>
  \<open>$\<close> of Python's \<open>re\<close> without \<open>MULTILINE\<close>: the position is the end of the string,
  or just before a newline that is the last character of the string.
\<close>

definition at_dollar :: "pystr \<Rightarrow> bool" where
  "at_dollar rest \<longleftrightarrow> rest = [] \<or> rest = [NEWLINE]"

text \<open>
  \<open>re.match(r'^[A-Za-z0-9=@_.-]+$', tag)\<close>, anchored at the start by \<open>match\<close> and
  \<open>^\<close>: one character of the class, then \<open>class_star_dollar\<close>, which is the rest
  of the \<open>+\<close> (take one more character of the class) or \<open>$\<close>.
\<close>

fun class_star_dollar :: "pystr \<Rightarrow> bool" where
  "class_star_dollar [] = at_dollar []"
| "class_star_dollar (c # cs) = ((tag_char c \<and> class_star_dollar cs) \<or> at_dollar (c # cs))"

definition re_match_valid_pattern :: "pystr \<Rightarrow> bool" where
  "re_match_valid_pattern tag =
     (case tag of [] \<Rightarrow> False | c # cs \<Rightarrow> tag_char c \<and> class_star_dollar cs)"

text \<open>
  Exceptions. \<open>ValueError\<close> and \<open>Exception\<close> are raised by the source with a message;
  the others are raised by the interpreter on a value of the wrong type, by
  \<open>response.json()\<close> on a body that is not JSON, and by \<open>requests\<close> (a connection
  error, a timeout). All of them are subclasses of \<open>Exception\<close>.
\<close>

datatype error =
    ValueError pystr
  | Exception pystr
  | AttributeError
  | TypeError
  | KeyError
  | IndexError
  | JSONDecodeError
  | RequestException pystr

definition validate_tag :: "pystr \<Rightarrow> pystr \<Rightarrow> error + bool" where
  "validate_tag tag tag_name =
     (if tag = [] then
        Inl (ValueError (tag_name @ lit '' cannot be empty''))
      else if length tag > 63 then
        Inl (ValueError (tag_name @ lit '' must be 63 characters or less (current: ''
               @ str_nat (length tag) @ lit '' characters)''))
      else if \<not> re_match_valid_pattern tag then
        Inl (ValueError (tag_name @ lit
          '' may contain only letters (A-Z), numbers (0-9), and the following characters (=@_.-)''))
      else Inr True)"

section \<open>JSON values and the interpreter's operations on them\<close>

text \<open>
  What \<open>response.json()\<close> returns, and what the program builds as a payload. Python's
  \<open>None\<close> is \<open>JNull\<close>, a \<open>dict\<close> is an association list looked up from the left, a
  \<open>list\<close> is a list. Numbers are integers: the program never computes with a number
  of a response.
\<close>

datatype json =
    JNull
  | JBool bool
  | JNum int
  | JStr pystr
  | JArr "json list"
  | JObj "(pystr \<times> json) list"

text \<open>\<open>d.get(key, default)\<close>: only a \<open>dict\<close> has the method.\<close>

definition py_get :: "json \<Rightarrow> pystr \<Rightarrow> json \<Rightarrow> error + json" where
  "py_get d key dflt =
     (case d of
        JObj kvs \<Rightarrow> Inr (case map_of kvs key of Some v \<Rightarrow> v | None \<Rightarrow> dflt)
      | _ \<Rightarrow> Inl AttributeError)"

text \<open>Truth value of a value, as \<open>if not x\<close> tests it.\<close>

definition py_bool :: "json \<Rightarrow> bool" where
  "py_bool v =
     (case v of
        JNull \<Rightarrow> False
      | JBool b \<Rightarrow> b
      | JNum i \<Rightarrow> i \<noteq> 0
      | JStr s \<Rightarrow> s \<noteq> []
      | JArr xs \<Rightarrow> xs \<noteq> []
      | JObj kvs \<Rightarrow> kvs \<noteq> [])"

text \<open>\<open>len(v)\<close>: of a string, a list or a dict (its distinct keys).\<close>

definition py_len :: "json \<Rightarrow> error + nat" where
  "py_len v =
     (case v of
        JStr s \<Rightarrow> Inr (length s)
      | JArr xs \<Rightarrow> Inr (length xs)
      | JObj kvs \<Rightarrow> Inr (length (remdups (map fst kvs)))
      | _ \<Rightarrow> Inl TypeError)"

text \<open>
  The elements \<open>for x in v\<close> visits: those of a list, the characters of a string, the
  keys of a dict.
\<close>

definition py_iter :: "json \<Rightarrow> error + json list" where
  "py_iter v =
     (case v of
        JArr xs \<Rightarrow> Inr xs
      | JStr s \<Rightarrow> Inr (map (\<lambda>c. JStr [c]) s)
      | JObj kvs \<Rightarrow> Inr (map JStr (remdups (map fst kvs)))
      | _ \<Rightarrow> Inl TypeError)"

text \<open>\<open>v[0]\<close>. The keys of a dict read from JSON are strings, so \<open>0\<close> is never one.\<close>

definition py_first :: "json \<Rightarrow> error + json" where
  "py_first v =
     (case v of
        JArr xs \<Rightarrow> (case xs of [] \<Rightarrow> Inl IndexError | x # _ \<Rightarrow> Inr x)
      | JStr s \<Rightarrow> (case s of [] \<Rightarrow> Inl IndexError | c # _ \<Rightarrow> Inr (JStr [c]))
      | JObj kvs \<Rightarrow> Inl KeyError
      | _ \<Rightarrow> Inl TypeError)"

text \<open>
  \<open>x in v\<close> for a string \<open>x\<close>: an element of a list equal to \<open>x\<close> (a string equals
  only a string), a substring of a string, a key of a dict.
\<close>

definition py_in :: "pystr \<Rightarrow> json \<Rightarrow> error + bool" where
  "py_in x v =
     (case v of
        JArr xs \<Rightarrow> Inr (JStr x \<in> set xs)
      | JStr s \<Rightarrow> Inr (sublist x s)
      | JObj kvs \<Rightarrow> Inr (x \<in> set (map fst kvs))
      | _ \<Rightarrow> Inl TypeError)"

text \<open>
  \<open>v.remove(x)\<close> and \<open>v.append(x)\<close>, which the source calls on the tags in place;
  here they return the new value. Only a list has the methods; \<open>remove\<close> deletes the
  first occurrence and raises \<open>ValueError\<close> when there is none.
\<close>

definition py_remove :: "json \<Rightarrow> pystr \<Rightarrow> error + json" where
  "py_remove v x =
     (case v of
        JArr xs \<Rightarrow>
          (if JStr x \<in> set xs then Inr (JArr (remove1 (JStr x) xs))
           else Inl (ValueError (lit ''list.remove(x): x not in list'')))
      | _ \<Rightarrow> Inl AttributeError)"

definition py_append :: "json \<Rightarrow> pystr \<Rightarrow> error + json" where
  "py_append v x =
     (case v of
        JArr xs \<Rightarrow> Inr (JArr (xs @ [JStr x]))
      | _ \<Rightarrow> Inl AttributeError)"

section \<open>The process environment and the HTTP client\<close>

text \<open>
  What the run reads from outside the source: the environment variables (\<open>None\<close> when
  unset), and two renderings the interpreter decides, \<open>str()\<close> of a list or dict and
  \<open>str(e)\<close> of an exception it raised itself.
\<close>

record runtime =
  API_KEY :: "pystr option"
  API_SECRET :: "pystr option"
  ENDOR_NAMESPACE :: "pystr option"
  container_str :: "json \<Rightarrow> pystr"
  interpreter_message :: "error \<Rightarrow> pystr"

definition API_URL :: pystr where
  "API_URL = lit ''https://api.endorlabs.com/v1''"

text \<open>A value inside an f-string: \<open>str()\<close> of it.\<close>

definition py_str :: "runtime \<Rightarrow> json \<Rightarrow> pystr" where
  "py_str rt v =
     (case v of
        JNull \<Rightarrow> lit ''None''
      | JBool b \<Rightarrow> (if b then lit ''True'' else lit ''False'')
      | JNum i \<Rightarrow> str_int i
      | JStr s \<Rightarrow> s
      | _ \<Rightarrow> container_str rt v)"

definition opt_json :: "pystr option \<Rightarrow> json" where
  "opt_json v = (case v of None \<Rightarrow> JNull | Some s \<Rightarrow> JStr s)"

text \<open>\<open>str(e)\<close> of a caught exception.\<close>

definition str_error :: "runtime \<Rightarrow> error \<Rightarrow> pystr" where
  "str_error rt e =
     (case e of
        ValueError m \<Rightarrow> m
      | Exception m \<Rightarrow> m
      | RequestException m \<Rightarrow> m
      | _ \<Rightarrow> interpreter_message rt e)"

text \<open>
  A request as \<open>requests.post\<close>, \<open>requests.get\<close> and \<open>requests.patch\<close> send it:
  the method, the URL, and the keyword arguments \<open>headers\<close>, \<open>params\<close> and \<open>json\<close>.
\<close>

datatype http_method = POST | GET | PATCH

record request =
  method_of :: http_method
  url_of :: pystr
  headers_of :: "(pystr \<times> pystr) list"
  params_of :: "(pystr \<times> pystr) list"
  json_of :: "json option"

text \<open>
  A response: \<open>status_code\<close>, \<open>text\<close> (the field \<open>text_of\<close>), and what \<open>json()\<close>
  returns (\<open>None\<close> when the body is not JSON and the call raises).
\<close>

record response =
  status_code :: nat
  text_of :: pystr
  json_body :: "json option"

definition response_json :: "response \<Rightarrow> error + json" where
  "response_json r = (case json_body r of None \<Rightarrow> Inl JSONDecodeError | Some j \<Rightarrow> Inr j)"

text \<open>
  The remote service together with \<open>requests\<close>: from the requests sent so far and
  the next one, the response, or the exception \<open>requests\<close> raises.
\<close>

type_synonym server = "request list \<Rightarrow> request \<Rightarrow> error + response"

text \<open>
  The state of a run: the requests sent and the texts printed, oldest first. With
  \<open>print\<close>, writing to the standard output succeeds; a standard output that can make
  \<open>print\<close> raise comes with the script, below.
\<close>

record state =
  reqs :: "request list"
  out :: "pystr list"

type_synonym 'a action = "state \<Rightarrow> (error + 'a) \<times> state"

definition return :: "'a \<Rightarrow> 'a action" where
  "return a s = (Inr a, s)"

definition raise :: "error \<Rightarrow> 'a action" where
  "raise e s = (Inl e, s)"

definition lift :: "error + 'a \<Rightarrow> 'a action" where
  "lift r s = (r, s)"

text \<open>Sequencing: an exception skips the rest.\<close>

definition bind :: "'a action \<Rightarrow> ('a \<Rightarrow> 'b action) \<Rightarrow> 'b action" where
  "bind m f s = (case m s of (Inl e, s') \<Rightarrow> (Inl e, s') | (Inr a, s') \<Rightarrow> f a s')"

definition say :: "pystr \<Rightarrow> state \<Rightarrow> state" where
  "say line s = s\<lparr>out := out s @ [line]\<rparr>"

definition print :: "pystr \<Rightarrow> unit action" where
  "print line s = (Inr (), say line s)"

definition send :: "server \<Rightarrow> request \<Rightarrow> response action" where
  "send srv rq s = (srv (reqs s) rq, s\<lparr>reqs := reqs s @ [rq]\<rparr>)"

section \<open>The API client\<close>

subsection \<open>\<open>get_token\<close>\<close>

definition token_request :: "runtime \<Rightarrow> request" where
  "token_request rt =
     \<lparr>method_of = POST,
      url_of = API_URL @ lit ''/auth/api-key'',
      headers_of = [(lit ''Content-Type'', lit ''application/json'')],
      params_of = [],
      json_of = Some (JObj [(lit ''key'', opt_json (API_KEY rt)),
                            (lit ''secret'', opt_json (API_SECRET rt))])\<rparr>"

definition get_token :: "runtime \<Rightarrow> server \<Rightarrow> json action" where
  "get_token rt srv =
     bind (send srv (token_request rt)) (\<lambda>response.
       if status_code response = 200 then
         bind (lift (response_json response)) (\<lambda>data.
           lift (py_get data (lit ''token'') JNull))
       else
         raise (Exception (lit ''Failed to get token: '' @ str_nat (status_code response)
                  @ lit '', '' @ text_of response)))"

subsection \<open>\<open>get_project_namespace\<close>\<close>

text \<open>The \<open>headers\<close> dict that the three functions below build from their token.\<close>

definition bearer_headers :: "runtime \<Rightarrow> json \<Rightarrow> (pystr \<times> pystr) list" where
  "bearer_headers rt token =
     [(lit ''Authorization'', lit ''Bearer '' @ py_str rt token),
      (lit ''Content-Type'', lit ''application/json''),
      (lit ''Accept-Encoding'', lit ''gzip, deflate, br, zstd'')]"

definition projects_request :: "runtime \<Rightarrow> json \<Rightarrow> pystr \<Rightarrow> request" where
  "projects_request rt token project_uuid =
     \<lparr>method_of = GET,
      url_of = API_URL @ lit ''/namespaces/'' @ py_str rt (opt_json (ENDOR_NAMESPACE rt))
                 @ lit ''/projects'',
      headers_of = bearer_headers rt token,
      params_of =
        [(lit ''list_parameters.filter'', lit ''uuid=='' @ [DQUOTE] @ project_uuid @ [DQUOTE]),
         (lit ''list_parameters.traverse'', lit ''true'')],
      json_of = None\<rparr>"

definition get_project_namespace :: "runtime \<Rightarrow> server \<Rightarrow> pystr \<Rightarrow> json action" where
  "get_project_namespace rt srv project_uuid =
     bind (get_token rt srv) (\<lambda>token.
     bind (send srv (projects_request rt token project_uuid)) (\<lambda>response.
       if status_code response = 200 then
         bind (lift (response_json response)) (\<lambda>response_data.
         bind (lift (py_get response_data (lit ''list'') (JObj []))) (\<lambda>list_field.
         bind (lift (py_get list_field (lit ''objects'') (JArr []))) (\<lambda>projects.
           if \<not> py_bool projects then
             raise (Exception (lit ''No project found with UUID: '' @ project_uuid))
           else
             bind (lift (py_first projects)) (\<lambda>project.
             bind (lift (py_get project (lit ''tenant_meta'') (JObj []))) (\<lambda>tenant_meta.
             bind (lift (py_get tenant_meta (lit ''namespace'') JNull)) (\<lambda>project_namespace.
             bind (print (lit ''Project namespace: '' @ py_str rt project_namespace)) (\<lambda>_.
             return project_namespace)))))))
       else
         raise (Exception (lit ''Failed to fetch project details: ''
                  @ str_nat (status_code response) @ lit '', '' @ text_of response))))"

subsection \<open>\<open>get_findings_with_tag\<close>\<close>

text \<open>
  The filter and the line printed with it (lines 90 to 97). \<open>branch\<close> is \<open>None\<close> or the
  string of \<open>--branch\<close>; \<open>if branch\<close> tests its truth value.
\<close>

definition context_filter :: "runtime \<Rightarrow> pystr \<Rightarrow> pystr \<Rightarrow> pystr option \<Rightarrow> pystr action" where
  "context_filter rt project_uuid tag branch =
     (if py_bool (opt_json branch) then
        bind (print (lit ''Using branch context: '' @ py_str rt (opt_json branch))) (\<lambda>_.
        return (lit ''context.id=='' @ py_str rt (opt_json branch)
                  @ lit '' and spec.project_uuid=='' @ project_uuid
                  @ lit '' and meta.tags CONTAINS '' @ [DQUOTE] @ tag @ [DQUOTE]))
      else
        bind (print (lit ''Using main context'')) (\<lambda>_.
        return (lit ''context.type==CONTEXT_TYPE_MAIN and spec.project_uuid=='' @ project_uuid
                  @ lit '' and meta.tags CONTAINS '' @ [DQUOTE] @ tag @ [DQUOTE])))"

definition findings_request :: "runtime \<Rightarrow> json \<Rightarrow> json \<Rightarrow> pystr \<Rightarrow> request" where
  "findings_request rt project_namespace token filter_text =
     \<lparr>method_of = GET,
      url_of = API_URL @ lit ''/namespaces/'' @ py_str rt project_namespace @ lit ''/findings'',
      headers_of = bearer_headers rt token,
      params_of =
        [(lit ''list_parameters.filter'', filter_text),
         (lit ''list_parameters.traverse'', lit ''true'')],
      json_of = None\<rparr>"

definition get_findings_with_tag ::
  "runtime \<Rightarrow> server \<Rightarrow> pystr \<Rightarrow> pystr \<Rightarrow> pystr option \<Rightarrow> (json \<times> json) action" where
  "get_findings_with_tag rt srv project_uuid tag branch =
     bind (get_project_namespace rt srv project_uuid) (\<lambda>project_namespace.
     bind (get_token rt srv) (\<lambda>token.
     bind (context_filter rt project_uuid tag branch) (\<lambda>filter_text.
     bind (send srv (findings_request rt project_namespace token filter_text)) (\<lambda>response.
       if status_code response = 200 then
         bind (lift (response_json response)) (\<lambda>response_data.
         bind (lift (py_get response_data (lit ''list'') (JObj []))) (\<lambda>list_field.
         bind (lift (py_get list_field (lit ''objects'') (JArr []))) (\<lambda>findings.
         bind (lift (py_len findings)) (\<lambda>n.
         bind (print (lit ''Found '' @ str_nat n @ lit '' findings with tag '' @ [SQUOTE]
                 @ tag @ [SQUOTE])) (\<lambda>_.
         return (findings, project_namespace))))))
       else
         raise (Exception (lit ''Failed to fetch findings: ''
                  @ str_nat (status_code response) @ lit '', '' @ text_of response))))))"

subsection \<open>\<open>update_finding_tags\<close>\<close>

text \<open>
  The new tags of one finding (lines 136 to 144): remove the old tag if it is there,
  then append the new tag if it is not there, printing what was done.
\<close>

definition recompute_tags :: "runtime \<Rightarrow> pystr \<Rightarrow> pystr \<Rightarrow> json \<Rightarrow> json \<Rightarrow> json action" where
  "recompute_tags rt old_tag new_tag finding_uuid existing_tags =
     bind (lift (py_in old_tag existing_tags)) (\<lambda>has_old.
     bind (if has_old then
             bind (lift (py_remove existing_tags old_tag)) (\<lambda>removed.
             bind (print (lit ''   Removed tag '' @ [SQUOTE] @ old_tag @ [SQUOTE]
                     @ lit '' from finding '' @ py_str rt finding_uuid)) (\<lambda>_.
             return removed))
           else return existing_tags) (\<lambda>existing_tags.
     bind (lift (py_in new_tag existing_tags)) (\<lambda>has_new.
       if \<not> has_new then
         bind (lift (py_append existing_tags new_tag)) (\<lambda>appended.
         bind (print (lit ''   Added tag '' @ [SQUOTE] @ new_tag @ [SQUOTE]
                 @ lit '' to finding '' @ py_str rt finding_uuid)) (\<lambda>_.
         return appended))
       else return existing_tags)))"

definition patch_request ::
  "pystr \<Rightarrow> (pystr \<times> pystr) list \<Rightarrow> json \<Rightarrow> json \<Rightarrow> request" where
  "patch_request url headers finding_uuid existing_tags =
     \<lparr>method_of = PATCH,
      url_of = url,
      headers_of = headers,
      params_of = [],
      json_of = Some (JObj
        [(lit ''request'', JObj [(lit ''update_mask'', JStr (lit ''meta.tags''))]),
         (lit ''object'', JObj
            [(lit ''uuid'', finding_uuid),
             (lit ''meta'', JObj [(lit ''tags'', existing_tags)])])])\<rparr>"

text \<open>The body of the loop for one finding: the new value of \<open>updated_count\<close>.\<close>

definition update_one ::
  "runtime \<Rightarrow> server \<Rightarrow> pystr \<Rightarrow> (pystr \<times> pystr) list \<Rightarrow> pystr \<Rightarrow> pystr \<Rightarrow> json \<Rightarrow> nat
     \<Rightarrow> nat action" where
  "update_one rt srv url headers old_tag new_tag finding updated_count =
     bind (lift (py_get finding (lit ''uuid'') JNull)) (\<lambda>finding_uuid.
     bind (lift (py_get finding (lit ''meta'') (JObj []))) (\<lambda>meta.
     bind (lift (py_get meta (lit ''tags'') (JArr []))) (\<lambda>existing_tags.
     bind (recompute_tags rt old_tag new_tag finding_uuid existing_tags) (\<lambda>existing_tags.
     bind (send srv (patch_request url headers finding_uuid existing_tags)) (\<lambda>response.
       if status_code response = 200 then
         bind (print ([CHECK_MARK] @ lit '' Successfully updated finding ''
                 @ py_str rt finding_uuid)) (\<lambda>_.
         return (updated_count + 1))
       else
         bind (print ([CROSS_MARK] @ lit '' Failed to update finding ''
                 @ py_str rt finding_uuid @ lit '': '' @ str_nat (status_code response)
                 @ lit '', '' @ text_of response)) (\<lambda>_.
         return updated_count))))))"

fun update_loop ::
  "runtime \<Rightarrow> server \<Rightarrow> pystr \<Rightarrow> (pystr \<times> pystr) list \<Rightarrow> pystr \<Rightarrow> pystr \<Rightarrow> json list \<Rightarrow> nat
     \<Rightarrow> nat action" where
  "update_loop rt srv url headers old_tag new_tag [] updated_count = return updated_count"
| "update_loop rt srv url headers old_tag new_tag (finding # rest) updated_count =
     bind (update_one rt srv url headers old_tag new_tag finding updated_count)
       (update_loop rt srv url headers old_tag new_tag rest)"

text \<open>The \<open>try\<close> block of \<open>update_finding_tags\<close>.\<close>

definition try_update ::
  "runtime \<Rightarrow> server \<Rightarrow> pystr \<Rightarrow> pystr \<Rightarrow> pystr \<Rightarrow> pystr option \<Rightarrow> unit action" where
  "try_update rt srv project_uuid old_tag new_tag branch =
     bind (get_findings_with_tag rt srv project_uuid old_tag branch)
       (\<lambda>(findings, project_namespace).
       if \<not> py_bool findings then
         print (lit ''No findings found with tag '' @ [SQUOTE] @ old_tag @ [SQUOTE]
           @ lit '' in project '' @ project_uuid)
       else
         bind (get_token rt srv) (\<lambda>token.
         bind (lift (py_iter findings)) (\<lambda>items.
         bind (update_loop rt srv
                 (API_URL @ lit ''/namespaces/'' @ py_str rt project_namespace @ lit ''/findings'')
                 (bearer_headers rt token) old_tag new_tag items 0) (\<lambda>updated_count.
         bind (lift (py_len findings)) (\<lambda>n.
         print ([NEWLINE, CHECK_MARK] @ lit '' Updated '' @ str_nat updated_count
           @ lit '' out of '' @ str_nat n @ lit '' findings''))))))"

text \<open>
  \<open>update_finding_tags\<close>: the \<open>try\<close> block, and the handler of \<open>except Exception\<close>,
  which prints and returns. What was sent and printed before the exception stays.
\<close>

definition update_finding_tags ::
  "runtime \<Rightarrow> server \<Rightarrow> pystr \<Rightarrow> pystr \<Rightarrow> pystr \<Rightarrow> pystr option \<Rightarrow> state \<Rightarrow> state" where
  "update_finding_tags rt srv project_uuid old_tag new_tag branch s =
     (case try_update rt srv project_uuid old_tag new_tag branch s of
        (Inr _, s') \<Rightarrow> s'
      | (Inl e, s') \<Rightarrow>
          say ([CROSS_MARK] @ lit '' Error updating findings in project '' @ project_uuid
                 @ lit '': '' @ str_error rt e) s')"

subsection \<open>The script\<close>

text \<open>
  The functions above write with \<open>print\<close>, which always succeeds. The script as a whole
  is taken with its standard output as it is: a stream that, from the texts written so
  far and the next one, writes it (\<open>None\<close>) or makes \<open>print\<close> raise, as an encoding
  does that lacks a character of the text. \<open>print_to\<close> is \<open>print\<close> on such a stream. The
  functions \<open>..._on\<close> are the functions above that print, line for line, with
  \<open>print_to\<close> in the place of \<open>print\<close>; \<open>get_token\<close> prints nothing and is used as it
  is.
\<close>

type_synonym stream = "pystr list \<Rightarrow> pystr \<Rightarrow> error option"

definition print_to :: "stream \<Rightarrow> pystr \<Rightarrow> unit action" where
  "print_to stdout line s =
     (case stdout (out s) line of None \<Rightarrow> (Inr (), say line s) | Some e \<Rightarrow> (Inl e, s))"

definition get_project_namespace_on ::
  "stream \<Rightarrow> runtime \<Rightarrow> server \<Rightarrow> pystr \<Rightarrow> json action" where
  "get_project_namespace_on stdout rt srv project_uuid =
     bind (get_token rt srv) (\<lambda>token.
     bind (send srv (projects_request rt token project_uuid)) (\<lambda>response.
       if status_code response = 200 then
         bind (lift (response_json response)) (\<lambda>response_data.
         bind (lift (py_get response_data (lit ''list'') (JObj []))) (\<lambda>list_field.
         bind (lift (py_get list_field (lit ''objects'') (JArr []))) (\<lambda>projects.
           if \<not> py_bool projects then
             raise (Exception (lit ''No project found with UUID: '' @ project_uuid))
           else
             bind (lift (py_first projects)) (\<lambda>project.
             bind (lift (py_get project (lit ''tenant_meta'') (JObj []))) (\<lambda>tenant_meta.
             bind (lift (py_get tenant_meta (lit ''namespace'') JNull)) (\<lambda>project_namespace.
             bind (print_to stdout (lit ''Project namespace: ''
                     @ py_str rt project_namespace)) (\<lambda>_.
             return project_namespace)))))))
       else
         raise (Exception (lit ''Failed to fetch project details: ''
                  @ str_nat (status_code response) @ lit '', '' @ text_of response))))"

definition context_filter_on ::
  "stream \<Rightarrow> runtime \<Rightarrow> pystr \<Rightarrow> pystr \<Rightarrow> pystr option \<Rightarrow> pystr action" where
  "context_filter_on stdout rt project_uuid tag branch =
     (if py_bool (opt_json branch) then
        bind (print_to stdout (lit ''Using branch context: ''
                @ py_str rt (opt_json branch))) (\<lambda>_.
        return (lit ''context.id=='' @ py_str rt (opt_json branch)
                  @ lit '' and spec.project_uuid=='' @ project_uuid
                  @ lit '' and meta.tags CONTAINS '' @ [DQUOTE] @ tag @ [DQUOTE]))
      else
        bind (print_to stdout (lit ''Using main context'')) (\<lambda>_.
        return (lit ''context.type==CONTEXT_TYPE_MAIN and spec.project_uuid=='' @ project_uuid
                  @ lit '' and meta.tags CONTAINS '' @ [DQUOTE] @ tag @ [DQUOTE])))"

definition get_findings_with_tag_on ::
  "stream \<Rightarrow> runtime \<Rightarrow> server \<Rightarrow> pystr \<Rightarrow> pystr \<Rightarrow> pystr option \<Rightarrow> (json \<times> json) action" where
  "get_findings_with_tag_on stdout rt srv project_uuid tag branch =
     bind (get_project_namespace_on stdout rt srv project_uuid) (\<lambda>project_namespace.
     bind (get_token rt srv) (\<lambda>token.
     bind (context_filter_on stdout rt project_uuid tag branch) (\<lambda>filter_text.
     bind (send srv (findings_request rt project_namespace token filter_text)) (\<lambda>response.
       if status_code response = 200 then
         bind (lift (response_json response)) (\<lambda>response_data.
         bind (lift (py_get response_data (lit ''list'') (JObj []))) (\<lambda>list_field.
         bind (lift (py_get list_field (lit ''objects'') (JArr []))) (\<lambda>findings.
         bind (lift (py_len findings)) (\<lambda>n.
         bind (print_to stdout (lit ''Found '' @ str_nat n @ lit '' findings with tag ''
                 @ [SQUOTE] @ tag @ [SQUOTE])) (\<lambda>_.
         return (findings, project_namespace))))))
       else
         raise (Exception (lit ''Failed to fetch findings: ''
                  @ str_nat (status_code response) @ lit '', '' @ text_of response))))))"

definition recompute_tags_on ::
  "stream \<Rightarrow> runtime \<Rightarrow> pystr \<Rightarrow> pystr \<Rightarrow> json \<Rightarrow> json \<Rightarrow> json action" where
  "recompute_tags_on stdout rt old_tag new_tag finding_uuid existing_tags =
     bind (lift (py_in old_tag existing_tags)) (\<lambda>has_old.
     bind (if has_old then
             bind (lift (py_remove existing_tags old_tag)) (\<lambda>removed.
             bind (print_to stdout (lit ''   Removed tag '' @ [SQUOTE] @ old_tag @ [SQUOTE]
                     @ lit '' from finding '' @ py_str rt finding_uuid)) (\<lambda>_.
             return removed))
           else return existing_tags) (\<lambda>existing_tags.
     bind (lift (py_in new_tag existing_tags)) (\<lambda>has_new.
       if \<not> has_new then
         bind (lift (py_append existing_tags new_tag)) (\<lambda>appended.
         bind (print_to stdout (lit ''   Added tag '' @ [SQUOTE] @ new_tag @ [SQUOTE]
                 @ lit '' to finding '' @ py_str rt finding_uuid)) (\<lambda>_.
         return appended))
       else return existing_tags)))"

definition update_one_on ::
  "stream \<Rightarrow> runtime \<Rightarrow> server \<Rightarrow> pystr \<Rightarrow> (pystr \<times> pystr) list \<Rightarrow> pystr \<Rightarrow> pystr \<Rightarrow> json \<Rightarrow> nat
     \<Rightarrow> nat action" where
  "update_one_on stdout rt srv url headers old_tag new_tag finding updated_count =
     bind (lift (py_get finding (lit ''uuid'') JNull)) (\<lambda>finding_uuid.
     bind (lift (py_get finding (lit ''meta'') (JObj []))) (\<lambda>meta.
     bind (lift (py_get meta (lit ''tags'') (JArr []))) (\<lambda>existing_tags.
     bind (recompute_tags_on stdout rt old_tag new_tag finding_uuid existing_tags)
       (\<lambda>existing_tags.
     bind (send srv (patch_request url headers finding_uuid existing_tags)) (\<lambda>response.
       if status_code response = 200 then
         bind (print_to stdout ([CHECK_MARK] @ lit '' Successfully updated finding ''
                 @ py_str rt finding_uuid)) (\<lambda>_.
         return (updated_count + 1))
       else
         bind (print_to stdout ([CROSS_MARK] @ lit '' Failed to update finding ''
                 @ py_str rt finding_uuid @ lit '': '' @ str_nat (status_code response)
                 @ lit '', '' @ text_of response)) (\<lambda>_.
         return updated_count))))))"

fun update_loop_on ::
  "stream \<Rightarrow> runtime \<Rightarrow> server \<Rightarrow> pystr \<Rightarrow> (pystr \<times> pystr) list \<Rightarrow> pystr \<Rightarrow> pystr \<Rightarrow> json list \<Rightarrow> nat
     \<Rightarrow> nat action" where
  "update_loop_on stdout rt srv url headers old_tag new_tag [] updated_count = return updated_count"
| "update_loop_on stdout rt srv url headers old_tag new_tag (finding # rest) updated_count =
     bind (update_one_on stdout rt srv url headers old_tag new_tag finding updated_count)
       (update_loop_on stdout rt srv url headers old_tag new_tag rest)"

definition try_update_on ::
  "stream \<Rightarrow> runtime \<Rightarrow> server \<Rightarrow> pystr \<Rightarrow> pystr \<Rightarrow> pystr \<Rightarrow> pystr option \<Rightarrow> unit action" where
  "try_update_on stdout rt srv project_uuid old_tag new_tag branch =
     bind (get_findings_with_tag_on stdout rt srv project_uuid old_tag branch)
       (\<lambda>(findings, project_namespace).
       if \<not> py_bool findings then
         print_to stdout (lit ''No findings found with tag '' @ [SQUOTE] @ old_tag @ [SQUOTE]
           @ lit '' in project '' @ project_uuid)
       else
         bind (get_token rt srv) (\<lambda>token.
         bind (lift (py_iter findings)) (\<lambda>items.
         bind (update_loop_on stdout rt srv
                 (API_URL @ lit ''/namespaces/'' @ py_str rt project_namespace @ lit ''/findings'')
                 (bearer_headers rt token) old_tag new_tag items 0) (\<lambda>updated_count.
         bind (lift (py_len findings)) (\<lambda>n.
         print_to stdout ([NEWLINE, CHECK_MARK] @ lit '' Updated '' @ str_nat updated_count
           @ lit '' out of '' @ str_nat n @ lit '' findings''))))))"

text \<open>
  \<open>update_finding_tags\<close> on a stream. An exception of the \<open>try\<close> block is caught; one
  that the \<open>print\<close> of the handler raises (line 168) is not, and leaves the function.
\<close>

definition update_finding_tags_on ::
  "stream \<Rightarrow> runtime \<Rightarrow> server \<Rightarrow> pystr \<Rightarrow> pystr \<Rightarrow> pystr \<Rightarrow> pystr option \<Rightarrow> unit action" where
  "update_finding_tags_on stdout rt srv project_uuid old_tag new_tag branch s =
     (case try_update_on stdout rt srv project_uuid old_tag new_tag branch s of
        (Inr _, s') \<Rightarrow> (Inr (), s')
      | (Inl e, s') \<Rightarrow>
          print_to stdout ([CROSS_MARK] @ lit '' Error updating findings in project ''
            @ project_uuid @ lit '': '' @ str_error rt e) s')"

text \<open>
  What \<open>parser.parse_args()\<close> gives: the four arguments, or \<open>SystemExit\<close> with the
  status that \<open>argparse\<close> chose (2 for a missing or unknown flag, 0 for \<open>--help\<close>). What
  \<open>argparse\<close> itself writes is not recorded.
\<close>

datatype parsed =
    SystemExit nat
  | Namespace pystr pystr pystr "pystr option"

text \<open>
  The script (lines 207 to 227): the exit status and the final state. Only
  \<open>ValueError\<close> is caught around the validation; its handler prints and ends with
  \<open>sys.exit(1)\<close>. That print, the prints of lines 222, 223 and 227 and the call of
  \<open>update_finding_tags\<close> are not guarded: an exception there ends the process with a
  traceback, whose exit status is 1 as well.
\<close>

definition main :: "stream \<Rightarrow> runtime \<Rightarrow> server \<Rightarrow> parsed \<Rightarrow> state \<Rightarrow> nat \<times> state" where
  "main stdout rt srv args s =
     (case args of
        SystemExit code \<Rightarrow> (code, s)
      | Namespace old_tag new_tag project_uuid branch \<Rightarrow>
          (case bind (lift (validate_tag old_tag (lit ''Old tag''))) (\<lambda>_.
                       lift (validate_tag new_tag (lit ''New tag''))) s of
             (Inl (ValueError m), s1) \<Rightarrow>
               (1, snd (print_to stdout ([CROSS_MARK] @ lit '' Tag validation error: '' @ m) s1))
           | (Inl _, s1) \<Rightarrow> (1, s1)
           | (Inr _, s1) \<Rightarrow>
               (case
                  bind (print_to stdout (lit ''Processing findings in project UUID: ''
                          @ project_uuid)) (\<lambda>_.
                  bind (print_to stdout (lit ''Removing tag '' @ [SQUOTE] @ old_tag @ [SQUOTE]
                          @ lit '' and adding tag '' @ [SQUOTE] @ new_tag @ [SQUOTE]
                          @ lit '' to findings...'' @ [NEWLINE])) (\<lambda>_.
                  bind (update_finding_tags_on stdout rt srv project_uuid old_tag new_tag branch)
                    (\<lambda>_.
                  print_to stdout ([CHECK_MARK] @ lit '' Findings processed!'')))) s1
                of
                  (Inr _, s2) \<Rightarrow> (0, s2)
                | (Inl _, s2) \<Rightarrow> (1, s2))))"

definition initial :: state where
  "initial = \<lparr>reqs = [], out = []\<rparr>"

section \<open>Vocabulary of the properties\<close>

text \<open>
  A finding as the loop expects it: a dict whose \<open>meta\<close>, when present, is a dict and
  whose \<open>tags\<close>, when present, is a list. \<open>uuid_of\<close> and \<open>tags_of\<close> are what the loop
  reads from it.
\<close>

definition uuid_of :: "json \<Rightarrow> json" where
  "uuid_of finding = (case py_get finding (lit ''uuid'') JNull of Inr u \<Rightarrow> u | Inl _ \<Rightarrow> JNull)"

definition tags_of :: "json \<Rightarrow> json list option" where
  "tags_of finding =
     (case py_get finding (lit ''meta'') (JObj []) of
        Inl _ \<Rightarrow> None
      | Inr meta \<Rightarrow>
          (case py_get meta (lit ''tags'') (JArr []) of
             Inr (JArr S) \<Rightarrow> Some S
           | _ \<Rightarrow> None))"

definition well_formed :: "json \<Rightarrow> bool" where
  "well_formed finding \<longleftrightarrow> tags_of finding \<noteq> None"

text \<open>
  The tags that lines 136 to 144 leave in a list \<open>S\<close>, and the PATCH that the loop
  sends for a finding, given the URL and the headers computed before the loop.
\<close>

definition new_tags :: "pystr \<Rightarrow> pystr \<Rightarrow> json list \<Rightarrow> json list" where
  "new_tags old_tag new_tag S =
     (let S1 = (if JStr old_tag \<in> set S then remove1 (JStr old_tag) S else S)
      in if JStr new_tag \<in> set S1 then S1 else S1 @ [JStr new_tag])"

definition finding_patch ::
  "pystr \<Rightarrow> (pystr \<times> pystr) list \<Rightarrow> pystr \<Rightarrow> pystr \<Rightarrow> json \<Rightarrow> request" where
  "finding_patch url headers old_tag new_tag finding =
     patch_request url headers (uuid_of finding)
       (JArr (new_tags old_tag new_tag (case tags_of finding of Some S \<Rightarrow> S | None \<Rightarrow> [])))"






text \<open>The PATCH requests among the requests sent.\<close>

definition patches_sent :: "state \<Rightarrow> request list" where
  "patches_sent s = filter (\<lambda>rq. method_of rq = PATCH) (reqs s)"


section \<open>Worked runs\<close>

text \<open>
  A small environment, and services put together from one reply per endpoint, on which
  the properties below are instantiated. \<open>stub_server\<close> answers the token request
  with \<open>auth\<close>, the project lookup with \<open>projects\<close>, the listing of findings with
  \<open>findings\<close>, and a PATCH with \<open>patch i\<close>, where \<open>i\<close> PATCH requests came before it.
\<close>

definition demo_runtime :: runtime where
  "demo_runtime =
     \<lparr>API_KEY = Some (lit ''key''),
      API_SECRET = Some (lit ''secret''),
      ENDOR_NAMESPACE = Some (lit ''acme''),
      container_str = (\<lambda>_. lit ''[...]''),
      interpreter_message = (\<lambda>_. lit ''error'')\<rparr>"

definition stub_server ::
  "error + response \<Rightarrow> error + response \<Rightarrow> error + response \<Rightarrow> (nat \<Rightarrow> error + response)
     \<Rightarrow> server" where
  "stub_server auth projects findings patch h rq =
     (case method_of rq of
        POST \<Rightarrow> auth
      | GET \<Rightarrow> (if suffix (lit ''/projects'') (url_of rq) then projects else findings)
      | PATCH \<Rightarrow> patch (length (filter (\<lambda>r. method_of r = PATCH) h)))"

definition ok_response :: "json \<Rightarrow> error + response" where
  "ok_response j = Inr \<lparr>status_code = 200, text_of = [], json_body = Some j\<rparr>"

definition status_response :: "nat \<Rightarrow> pystr \<Rightarrow> error + response" where
  "status_response code body = Inr \<lparr>status_code = code, text_of = body, json_body = None\<rparr>"

definition listing :: "json list \<Rightarrow> error + response" where
  "listing objects = ok_response (JObj [(lit ''list'', JObj [(lit ''objects'', JArr objects)])])"

definition demo_token :: "error + response" where
  "demo_token = ok_response (JObj [(lit ''token'', JStr (lit ''T''))])"

definition demo_project :: json where
  "demo_project = JObj [(lit ''tenant_meta'', JObj [(lit ''namespace'', JStr (lit ''acme.sub''))])]"

definition demo_finding :: "string \<Rightarrow> string list \<Rightarrow> json" where
  "demo_finding u ts =
     JObj [(lit ''uuid'', JStr (lit u)),
           (lit ''meta'', JObj [(lit ''tags'', JArr (map (\<lambda>t. JStr (lit t)) ts))])]"

definition demo_findings :: "json list" where
  "demo_findings =
     [demo_finding ''f1'' [''dev-repo'', ''critical''],
      demo_finding ''f2'' [''dev-repo''],
      demo_finding ''f3'' [''x'', ''dev-repo'', ''prod-repo'']]"

text \<open>Every PATCH is answered with 200 but the second one, answered with 500.\<close>

definition second_patch_fails :: "nat \<Rightarrow> error + response" where
  "second_patch_fails i = (if i = 1 then status_response 500 (lit ''boom'') else ok_response (JObj []))"

text \<open>
  A standard output that writes every text, and one whose encoding is Latin-1: it
  raises (\<open>UnicodeEncodeError\<close>, a \<open>ValueError\<close>) on a text with a character beyond 255.
\<close>

definition writable_stdout :: stream where
  "writable_stdout h line = None"

definition latin1_stdout :: stream where
  "latin1_stdout h line =
     (if list_all (\<lambda>c. c < 256) line then None
      else Some (ValueError (lit ''codec cannot encode character'')))"

definition demo_server :: server where
  "demo_server = stub_server demo_token (listing [demo_project]) (listing demo_findings)
                   second_patch_fails"

section \<open>Basic facts\<close>

subsection \<open>Actions\<close>

lemma bind_return [simp]: "bind (return a) f = f a"
  by (rule ext) (simp add: bind_def return_def)

lemma bind_raise [simp]: "bind (raise e) f = raise e"
  by (rule ext) (simp add: bind_def raise_def)

lemma bind_lift_Inr [simp]: "bind (lift (Inr a)) f = f a"
  by (rule ext) (simp add: bind_def lift_def)

lemma bind_lift_Inl [simp]: "bind (lift (Inl e)) f = raise e"
  by (rule ext) (simp add: bind_def lift_def raise_def)

lemma bind_lift: "bind (lift r) f = (case r of Inl e \<Rightarrow> raise e | Inr a \<Rightarrow> f a)"
  by (cases r) simp_all

lemma lift_apply [simp]: "lift r s = (r, s)"
  by (simp add: lift_def)

lemma bind_assoc [simp]: "bind (bind m f) g = bind m (\<lambda>x. bind (f x) g)"
  by (rule ext) (simp add: bind_def split: prod.splits sum.splits)

lemma bind_print [simp]: "bind (print line) f s = f () (say line s)"
  by (simp add: bind_def print_def)

lemma bind_if: "bind (if c then a else b) f = (if c then bind a f else bind b f)"
  by simp

lemma bind_step [simp]: "bind (\<lambda>s. (Inr a, h s)) g = (\<lambda>s. g a (h s))"
  by (rule ext) (simp add: bind_def)

lemma bind_fail [simp]: "bind (\<lambda>s. (Inl e, h s)) g = (\<lambda>s. (Inl e, h s))"
  by (rule ext) (simp add: bind_def)

lemma bind_send:
  "bind (send srv rq) f s =
     (case srv (reqs s) rq of
        Inl e \<Rightarrow> (Inl e, s\<lparr>reqs := reqs s @ [rq]\<rparr>)
      | Inr r \<Rightarrow> f r (s\<lparr>reqs := reqs s @ [rq]\<rparr>))"
  by (simp add: bind_def send_def split: sum.splits)

lemma bind_result:
  "m s = (Inr a, s') \<Longrightarrow> bind m f s = f a s'"
  "m s = (Inl e, s') \<Longrightarrow> bind m f s = (Inl e, s')"
  by (simp_all add: bind_def)

lemma return_apply [simp]: "return a s = (Inr a, s)"
  by (simp add: return_def)

lemma raise_apply [simp]: "raise e s = (Inl e, s)"
  by (simp add: raise_def)

lemma print_apply [simp]: "print line s = (Inr (), say line s)"
  by (simp add: print_def)

lemma reqs_say [simp]: "reqs (say line s) = reqs s"
  by (simp add: say_def)

lemma out_say [simp]: "out (say line s) = out s @ [line]"
  by (simp add: say_def)

text \<open>Actions that send nothing.\<close>

lemma reqs_bind:
  assumes "\<And>s. reqs (snd (m s)) = reqs s" and "\<And>a s. reqs (snd (f a s)) = reqs s"
  shows "reqs (snd (bind m f s)) = reqs s"
proof (cases "m s")
  case (Pair r s')
  with assms(1) [of s] have "reqs s' = reqs s" by simp
  with Pair assms(2) show ?thesis by (cases r) (simp_all add: bind_def)
qed

lemma reqs_lift_bind:
  assumes "\<And>a s. reqs (snd (f a s)) = reqs s"
  shows "reqs (snd (bind (lift r) f s)) = reqs s"
  using assms by (intro reqs_bind) simp_all


text \<open>A quantity of the state that every step of an action leaves unchanged.\<close>

lemma inv_bind:
  assumes "\<And>s. Q (snd (m s)) = Q s" and "\<And>a s. Q (snd (f a s)) = Q s"
  shows "Q (snd (bind m f s)) = Q s"
proof (cases "m s")
  case (Pair r s')
  with assms(1) [of s] have "Q s' = Q s" by simp
  with Pair assms(2) show ?thesis by (cases r) (simp_all add: bind_def)
qed

subsection \<open>Decimal numbers\<close>

lemma str_nat_401: "str_nat 401 = lit ''401''"
  by (simp add: str_nat.simps [of 401] str_nat.simps [of 40] str_nat.simps [of 4] lit_def)


lemma str_nat_digit: "n < 10 \<Longrightarrow> str_nat n = [48 + n]"
  by (simp add: str_nat.simps)


subsection \<open>The pattern of \<open>validate_tag\<close>\<close>

lemma class_star_dollar_iff:
  "class_star_dollar s \<longleftrightarrow>
     list_all tag_char s \<or> (\<exists>p. s = p @ [NEWLINE] \<and> list_all tag_char p)"
proof (induction s)
  case Nil
  then show ?case by (simp add: at_dollar_def)
next
  case (Cons c cs)
  show ?case
    by (simp add: Cons.IH at_dollar_def) (auto simp: Cons_eq_append_conv)
qed

lemma re_match_valid_pattern_iff:
  "re_match_valid_pattern tag \<longleftrightarrow>
     (tag \<noteq> [] \<and> list_all tag_char tag) \<or>
     (\<exists>p. p \<noteq> [] \<and> list_all tag_char p \<and> tag = p @ [NEWLINE])"
proof (cases tag)
  case Nil
  then show ?thesis by (simp add: re_match_valid_pattern_def)
next
  case (Cons c cs)
  have "(tag_char c \<and> (\<exists>p. cs = p @ [NEWLINE] \<and> list_all tag_char p)) \<longleftrightarrow>
        (\<exists>p. p \<noteq> [] \<and> list_all tag_char p \<and> c # cs = p @ [NEWLINE])"
  proof
    assume "tag_char c \<and> (\<exists>p. cs = p @ [NEWLINE] \<and> list_all tag_char p)"
    then obtain p where "tag_char c" "cs = p @ [NEWLINE]" "list_all tag_char p" by blast
    then have "c # p \<noteq> [] \<and> list_all tag_char (c # p) \<and> c # cs = (c # p) @ [NEWLINE]"
      by simp
    then show "\<exists>p. p \<noteq> [] \<and> list_all tag_char p \<and> c # cs = p @ [NEWLINE]" by blast
  next
    assume "\<exists>p. p \<noteq> [] \<and> list_all tag_char p \<and> c # cs = p @ [NEWLINE]"
    then obtain p where p: "p \<noteq> []" "list_all tag_char p" "c # cs = p @ [NEWLINE]" by blast
    then obtain q where "p = c # q" by (cases p) auto
    with p show "tag_char c \<and> (\<exists>p. cs = p @ [NEWLINE] \<and> list_all tag_char p)" by auto
  qed
  with Cons show ?thesis
    by (auto simp add: re_match_valid_pattern_def class_star_dollar_iff)
qed

text \<open>
  When \<open>validate_tag\<close> succeeds: the tag has 1 to 63 characters, all of the class, or
  all of the class but a final newline.
\<close>

lemma validate_tag_succeeds_iff:
  "validate_tag tag tag_name = Inr True \<longleftrightarrow>
     1 \<le> length tag \<and> length tag \<le> 63 \<and>
     (list_all tag_char tag \<or>
      (\<exists>p. p \<noteq> [] \<and> list_all tag_char p \<and> tag = p @ [NEWLINE]))"
  by (cases tag) (auto simp add: validate_tag_def re_match_valid_pattern_iff)

lemma validate_tag_result:
  "validate_tag tag tag_name = Inr True \<or> (\<exists>m. validate_tag tag tag_name = Inl (ValueError m))"
  by (simp add: validate_tag_def)

text \<open>For a tag that does not end in a newline, the three rules of the docstring decide.\<close>

lemma validate_tag_no_final_newline:
  assumes "tag = [] \<or> last tag \<noteq> NEWLINE"
  shows "validate_tag tag tag_name = Inr True \<longleftrightarrow>
           1 \<le> length tag \<and> length tag \<le> 63 \<and> list_all tag_char tag"
  using assms by (auto simp add: validate_tag_succeeds_iff)

text \<open>The message names the rule that failed, in the order the rules are tested.\<close>

lemma validate_tag_messages:
  "tag = [] \<Longrightarrow>
     validate_tag tag tag_name = Inl (ValueError (tag_name @ lit '' cannot be empty''))"
  "63 < length tag \<Longrightarrow>
     validate_tag tag tag_name =
       Inl (ValueError (tag_name @ lit '' must be 63 characters or less (current: ''
              @ str_nat (length tag) @ lit '' characters)''))"
  "tag \<noteq> [] \<Longrightarrow> length tag \<le> 63 \<Longrightarrow> \<not> re_match_valid_pattern tag \<Longrightarrow>
     validate_tag tag tag_name =
       Inl (ValueError (tag_name @ lit
         '' may contain only letters (A-Z), numbers (0-9), and the following characters (=@_.-)''))"
  by (auto simp add: validate_tag_def)

text \<open>
  C2. The claim is that \<open>validate_tag\<close> succeeds exactly on the tags of 1 to 63
  characters of the class \<open>[A-Za-z0-9=@_.-]\<close>. The code accepts the tag
  \<open>dev-repo\<close> followed by a newline, whose last character is not of the class: the
  \<open>$\<close> of the pattern also matches just before a final newline.
\<close>

theorem validate_tag_accepts_final_newline:
  "validate_tag (lit ''dev-repo'' @ [NEWLINE]) (lit ''Old tag'') = Inr True \<and>
   length (lit ''dev-repo'' @ [NEWLINE]) = 9 \<and>
   \<not> list_all tag_char (lit ''dev-repo'' @ [NEWLINE])"
  by (simp add: validate_tag_def re_match_valid_pattern_def at_dollar_def lit_def
        tag_char_def NEWLINE_def)

subsection \<open>The tags of one finding\<close>

lemma recompute_tags_list:
  "recompute_tags rt old_tag new_tag finding_uuid (JArr S) s =
     (let S1 = (if JStr old_tag \<in> set S then remove1 (JStr old_tag) S else S);
          s1 = (if JStr old_tag \<in> set S
                then say (lit ''   Removed tag '' @ [SQUOTE] @ old_tag @ [SQUOTE]
                       @ lit '' from finding '' @ py_str rt finding_uuid) s else s)
      in if JStr new_tag \<notin> set S1
         then (Inr (JArr (S1 @ [JStr new_tag])),
               say (lit ''   Added tag '' @ [SQUOTE] @ new_tag @ [SQUOTE]
                      @ lit '' to finding '' @ py_str rt finding_uuid) s1)
         else (Inr (JArr S1), s1))"
  by (simp add: recompute_tags_def py_in_def py_remove_def py_append_def Let_def bind_if)




text \<open>
  C9. Recomputing the tags of a finding that already lacks the old tag and already has
  the new tag changes nothing: the tags are returned as they are and nothing is
  printed, so neither the removal nor the append is run.
\<close>

theorem recompute_tags_idempotent:
  assumes "JStr old_tag \<notin> set S" and "JStr new_tag \<in> set S"
  shows "recompute_tags rt old_tag new_tag finding_uuid (JArr S) s = (Inr (JArr S), s)"
  using assms by (simp add: recompute_tags_list)

theorem recompute_tags_idempotent_witness:
  "JStr (lit ''dev-repo'') \<notin> set [JStr (lit ''critical''), JStr (lit ''prod-repo'')] \<and>
   JStr (lit ''prod-repo'') \<in> set [JStr (lit ''critical''), JStr (lit ''prod-repo'')] \<and>
   recompute_tags demo_runtime (lit ''dev-repo'') (lit ''prod-repo'') (JStr (lit ''f1''))
     (JArr [JStr (lit ''critical''), JStr (lit ''prod-repo'')]) initial
     = (Inr (JArr [JStr (lit ''critical''), JStr (lit ''prod-repo'')]), initial)"
proof -
  have a: "JStr (lit ''dev-repo'') \<notin> set [JStr (lit ''critical''), JStr (lit ''prod-repo'')]"
    by (simp add: lit_def)
  have b: "JStr (lit ''prod-repo'') \<in> set [JStr (lit ''critical''), JStr (lit ''prod-repo'')]"
    by simp
  from recompute_tags_idempotent [OF a b] a b show ?thesis by blast
qed

subsection \<open>\<open>get_token\<close> and \<open>get_project_namespace\<close>\<close>

lemma get_token_run:
  "get_token rt srv s =
     ((case srv (reqs s) (token_request rt) of
         Inl e \<Rightarrow> Inl e
       | Inr r \<Rightarrow>
           if status_code r = 200 then
             (case response_json r of
                Inl e \<Rightarrow> Inl e
              | Inr d \<Rightarrow> py_get d (lit ''token'') JNull)
           else Inl (Exception (lit ''Failed to get token: '' @ str_nat (status_code r)
                       @ lit '', '' @ text_of r))),
      s\<lparr>reqs := reqs s @ [token_request rt]\<rparr>)"
  by (simp add: get_token_def bind_send bind_lift split: sum.splits)

lemma stub_server_projects:
  "stub_server auth projects findings patch h (projects_request rt token project_uuid) = projects"
  by (simp add: stub_server_def projects_request_def suffix_def)

lemma demo_token_run:
  "get_token demo_runtime (stub_server demo_token projects findings patch) s =
     (Inr (JStr (lit ''T'')), s\<lparr>reqs := reqs s @ [token_request demo_runtime]\<rparr>)"
  by (simp add: get_token_run stub_server_def token_request_def demo_token_def ok_response_def
        response_json_def py_get_def)

text \<open>
  C7. When the token request is answered with 200, \<open>get_token\<close> returns the \<open>token\<close>
  field of the JSON body; answered with any other status, it raises an exception whose
  message holds the status code and the text of the response. In both cases the one
  token request is all it sends: nothing is retried.
\<close>

theorem get_token_contract:
  assumes "srv (reqs s) (token_request rt) = Inr r"
  shows "(status_code r = 200 \<and> json_body r = Some (JObj kvs) \<and> map_of kvs (lit ''token'') = Some t
            \<longrightarrow> get_token rt srv s = (Inr t, s\<lparr>reqs := reqs s @ [token_request rt]\<rparr>))
       \<and> (status_code r \<noteq> 200
            \<longrightarrow> get_token rt srv s =
                  (Inl (Exception (lit ''Failed to get token: '' @ str_nat (status_code r)
                          @ lit '', '' @ text_of r)),
                   s\<lparr>reqs := reqs s @ [token_request rt]\<rparr>))"
  using assms by (simp add: get_token_run response_json_def py_get_def)

theorem get_token_contract_witness:
  "get_token demo_runtime demo_server initial =
     (Inr (JStr (lit ''T'')), initial\<lparr>reqs := reqs initial @ [token_request demo_runtime]\<rparr>) \<and>
   get_token demo_runtime
       (stub_server (status_response 401 (lit ''unauthorized'')) (listing []) (listing [])
          second_patch_fails) initial =
     (Inl (Exception (lit ''Failed to get token: 401, unauthorized'')),
      initial\<lparr>reqs := reqs initial @ [token_request demo_runtime]\<rparr>)"
proof -
  let ?ok = "\<lparr>status_code = 200, text_of = [], json_body = Some (JObj [(lit ''token'', JStr (lit ''T''))])\<rparr>"
  let ?no = "\<lparr>status_code = 401, text_of = lit ''unauthorized'', json_body = None\<rparr>"
  let ?deny = "stub_server (status_response 401 (lit ''unauthorized'')) (listing []) (listing [])
          second_patch_fails"
  have a: "demo_server (reqs initial) (token_request demo_runtime) = Inr ?ok"
    by (simp add: demo_server_def stub_server_def token_request_def demo_token_def ok_response_def)
  have b: "?deny (reqs initial) (token_request demo_runtime) = Inr ?no"
    by (simp add: stub_server_def token_request_def status_response_def)
  have m: "map_of [(lit ''token'', JStr (lit ''T''))] (lit ''token'') = Some (JStr (lit ''T''))"
    by simp
  from get_token_contract [where srv = demo_server and s = initial and rt = demo_runtime
         and kvs = "[(lit ''token'', JStr (lit ''T''))]" and t = "JStr (lit ''T'')", OF a] m
  have 1: "get_token demo_runtime demo_server initial =
     (Inr (JStr (lit ''T'')), initial\<lparr>reqs := reqs initial @ [token_request demo_runtime]\<rparr>)"
    by simp
  from get_token_contract [where srv = ?deny and s = initial and rt = demo_runtime, OF b]
  have 2: "get_token demo_runtime ?deny initial =
     (Inl (Exception (lit ''Failed to get token: 401, unauthorized'')),
      initial\<lparr>reqs := reqs initial @ [token_request demo_runtime]\<rparr>)"
    by (simp add: str_nat_401 lit_def)
  from 1 2 show ?thesis by blast
qed

lemma get_token_state: "snd (get_token rt srv s) = s\<lparr>reqs := reqs s @ [token_request rt]\<rparr>"
  by (simp add: get_token_run)

lemma get_project_namespace_after_token:
  assumes "get_token rt srv s = (Inr token, s1)"
    and "srv (reqs s1) (projects_request rt token project_uuid) = Inr r"
  shows "get_project_namespace rt srv project_uuid s =
     (if status_code r = 200 then
        bind (lift (response_json r)) (\<lambda>response_data.
        bind (lift (py_get response_data (lit ''list'') (JObj []))) (\<lambda>list_field.
        bind (lift (py_get list_field (lit ''objects'') (JArr []))) (\<lambda>projects.
          if \<not> py_bool projects then
            raise (Exception (lit ''No project found with UUID: '' @ project_uuid))
          else
            bind (lift (py_first projects)) (\<lambda>project.
            bind (lift (py_get project (lit ''tenant_meta'') (JObj []))) (\<lambda>tenant_meta.
            bind (lift (py_get tenant_meta (lit ''namespace'') JNull)) (\<lambda>project_namespace.
            bind (print (lit ''Project namespace: '' @ py_str rt project_namespace)) (\<lambda>_.
            return project_namespace)))))))
      else
        raise (Exception (lit ''Failed to fetch project details: ''
                 @ str_nat (status_code r) @ lit '', '' @ text_of r)))
     (s1\<lparr>reqs := reqs s1 @ [projects_request rt token project_uuid]\<rparr>)"
  using assms(2)
  by (simp add: get_project_namespace_def
        bind_result(1) [where m = "get_token rt srv" and s = s, OF assms(1)] bind_send)



lemma get_project_namespace_reqs:
  assumes "get_token rt srv s = (Inr token, s1)"
  shows "reqs (snd (get_project_namespace rt srv project_uuid s))
           = reqs s1 @ [projects_request rt token project_uuid]"
proof -
  have tail: "reqs (snd (
        bind (lift (response_json r)) (\<lambda>response_data.
        bind (lift (py_get response_data (lit ''list'') (JObj []))) (\<lambda>list_field.
        bind (lift (py_get list_field (lit ''objects'') (JArr []))) (\<lambda>projects.
          if \<not> py_bool projects then
            raise (Exception (lit ''No project found with UUID: '' @ project_uuid))
          else
            bind (lift (py_first projects)) (\<lambda>project.
            bind (lift (py_get project (lit ''tenant_meta'') (JObj []))) (\<lambda>tenant_meta.
            bind (lift (py_get tenant_meta (lit ''namespace'') JNull)) (\<lambda>project_namespace.
            bind (print (lit ''Project namespace: '' @ py_str rt project_namespace)) (\<lambda>_.
            return project_namespace))))))) s')) = reqs s'" for r s'
    by (intro reqs_lift_bind) (simp add: bind_lift split: sum.splits)
  show ?thesis
  proof (cases "srv (reqs s1) (projects_request rt token project_uuid)")
    case (Inl e)
    then show ?thesis
      by (simp add: get_project_namespace_def
            bind_result(1) [where m = "get_token rt srv" and s = s, OF assms] bind_send)
  next
    case (Inr r)
    show ?thesis
      by (simp add: get_project_namespace_after_token [OF assms Inr] tail)
  qed
qed

text \<open>
  C10. When the token request is answered with 200 and a JSON object without a
  \<open>token\<close> field, \<open>get_token\<close> does not raise: it returns \<open>None\<close>. The project lookup
  is then sent all the same, with \<open>Bearer None\<close> as its \<open>Authorization\<close> header.
\<close>

theorem get_token_missing_field:
  assumes "srv (reqs s) (token_request rt) = Inr r"
    and "status_code r = 200"
    and "json_body r = Some (JObj kvs)"
    and "map_of kvs (lit ''token'') = None"
  shows "get_token rt srv s = (Inr JNull, s\<lparr>reqs := reqs s @ [token_request rt]\<rparr>)
       \<and> reqs (snd (get_project_namespace rt srv project_uuid s))
           = reqs s @ [token_request rt, projects_request rt JNull project_uuid]
       \<and> map_of (headers_of (projects_request rt JNull project_uuid)) (lit ''Authorization'')
           = Some (lit ''Bearer None'')"
proof -
  have t: "get_token rt srv s = (Inr JNull, s\<lparr>reqs := reqs s @ [token_request rt]\<rparr>)"
    using assms by (simp add: get_token_run response_json_def py_get_def)
  have h: "map_of (headers_of (projects_request rt JNull project_uuid)) (lit ''Authorization'')
           = Some (lit ''Bearer None'')"
    by (simp add: projects_request_def bearer_headers_def py_str_def lit_def)
  from t h get_project_namespace_reqs [OF t, of project_uuid] show ?thesis by simp
qed

theorem get_token_missing_field_witness:
  "stub_server (ok_response (JObj [])) (listing [demo_project]) (listing []) second_patch_fails
       (reqs initial) (token_request demo_runtime)
     = Inr \<lparr>status_code = 200, text_of = [], json_body = Some (JObj [])\<rparr> \<and>
   map_of [] (lit ''token'') = (None :: json option) \<and>
   get_token demo_runtime
       (stub_server (ok_response (JObj [])) (listing [demo_project]) (listing []) second_patch_fails)
       initial
     = (Inr JNull, initial\<lparr>reqs := reqs initial @ [token_request demo_runtime]\<rparr>) \<and>
   reqs (snd (get_project_namespace demo_runtime
       (stub_server (ok_response (JObj [])) (listing [demo_project]) (listing []) second_patch_fails)
       (lit ''uuid1'') initial))
     = reqs initial @ [token_request demo_runtime,
                       projects_request demo_runtime JNull (lit ''uuid1'')] \<and>
   map_of (headers_of (projects_request demo_runtime JNull (lit ''uuid1''))) (lit ''Authorization'')
     = Some (lit ''Bearer None'')"
proof -
  let ?srv = "stub_server (ok_response (JObj [])) (listing [demo_project]) (listing [])
                second_patch_fails"
  let ?r = "\<lparr>status_code = 200, text_of = [], json_body = Some (JObj [])\<rparr>"
  have a: "?srv (reqs initial) (token_request demo_runtime) = Inr ?r"
    by (simp add: stub_server_def token_request_def ok_response_def)
  have b: "status_code ?r = 200" by simp
  have c: "json_body ?r = Some (JObj [])" by simp
  have d: "map_of [] (lit ''token'') = (None :: json option)" by simp
  from get_token_missing_field [where srv = ?srv and s = initial and rt = demo_runtime, OF a b c d] a d
  show ?thesis by blast
qed

subsection \<open>\<open>get_findings_with_tag\<close>\<close>

lemma context_filter_run:
  "context_filter rt project_uuid tag branch s =
     (Inr ((if branch = None \<or> branch = Some [] then lit ''context.type==CONTEXT_TYPE_MAIN''
            else lit ''context.id=='' @ the branch)
           @ lit '' and spec.project_uuid=='' @ project_uuid
           @ lit '' and meta.tags CONTAINS '' @ [DQUOTE] @ tag @ [DQUOTE]),
      say (if branch = None \<or> branch = Some [] then lit ''Using main context''
           else lit ''Using branch context: '' @ the branch) s)"
  by (cases branch) (simp_all add: context_filter_def opt_json_def py_bool_def py_str_def lit_def)

lemma get_findings_with_tag_after_token:
  assumes "get_project_namespace rt srv project_uuid s = (Inr project_namespace, s1)"
    and "get_token rt srv s1 = (Inr token, s2)"
  shows "get_findings_with_tag rt srv project_uuid tag branch s =
     bind (context_filter rt project_uuid tag branch) (\<lambda>filter_text.
     bind (send srv (findings_request rt project_namespace token filter_text)) (\<lambda>response.
       if status_code response = 200 then
         bind (lift (response_json response)) (\<lambda>response_data.
         bind (lift (py_get response_data (lit ''list'') (JObj []))) (\<lambda>list_field.
         bind (lift (py_get list_field (lit ''objects'') (JArr []))) (\<lambda>findings.
         bind (lift (py_len findings)) (\<lambda>n.
         bind (print (lit ''Found '' @ str_nat n @ lit '' findings with tag '' @ [SQUOTE]
                 @ tag @ [SQUOTE])) (\<lambda>_.
         return (findings, project_namespace))))))
       else
         raise (Exception (lit ''Failed to fetch findings: ''
                  @ str_nat (status_code response) @ lit '', '' @ text_of response)))) s2"
  by (simp add: get_findings_with_tag_def
        bind_result(1) [where m = "get_project_namespace rt srv project_uuid" and s = s, OF assms(1)]
        bind_result(1) [where m = "get_token rt srv" and s = s1, OF assms(2)])



lemma demo_namespace_run:
  "get_project_namespace demo_runtime
       (stub_server demo_token (listing [demo_project]) findings patch) project_uuid s =
     (Inr (JStr (lit ''acme.sub'')),
      say (lit ''Project namespace: acme.sub'')
        (s\<lparr>reqs := reqs s @ [token_request demo_runtime,
                              projects_request demo_runtime (JStr (lit ''T'')) project_uuid]\<rparr>))"
  by (simp add: get_project_namespace_after_token [OF demo_token_run]
        stub_server_projects listing_def ok_response_def response_json_def py_get_def
        py_bool_def py_first_def demo_project_def py_str_def lit_def)



subsection \<open>No PATCH before the loop\<close>

lemma method_of_requests [simp]:
  "method_of (token_request rt) = POST"
  "method_of (projects_request rt token project_uuid) = GET"
  "method_of (findings_request rt project_namespace token filter_text) = GET"
  "method_of (patch_request url headers finding_uuid existing_tags) = PATCH"
  by (simp_all add: token_request_def projects_request_def findings_request_def
        patch_request_def)

lemma patches_sent_say [simp]: "patches_sent (say line s) = patches_sent s"
  by (simp add: patches_sent_def)

lemma patches_sent_send:
  "method_of rq \<noteq> PATCH \<Longrightarrow> patches_sent (snd (send srv rq s)) = patches_sent s"
  by (simp add: patches_sent_def send_def)

lemma patches_sent_get_token: "patches_sent (snd (get_token rt srv s)) = patches_sent s"
  by (simp add: get_token_state patches_sent_def token_request_def)

lemma patches_sent_get_project_namespace:
  "patches_sent (snd (get_project_namespace rt srv project_uuid s)) = patches_sent s"
  unfolding get_project_namespace_def
  by (intro inv_bind patches_sent_get_token patches_sent_send)
     (auto simp: projects_request_def intro!: inv_bind)

lemma patches_sent_context_filter:
  "patches_sent (snd (context_filter rt project_uuid tag branch s)) = patches_sent s"
  by (simp add: context_filter_run)

lemma patches_sent_get_findings_with_tag:
  "patches_sent (snd (get_findings_with_tag rt srv project_uuid tag branch s)) = patches_sent s"
  unfolding get_findings_with_tag_def
  by (intro inv_bind patches_sent_get_token patches_sent_send patches_sent_get_project_namespace
        patches_sent_context_filter)
     (auto simp: findings_request_def intro!: inv_bind)

lemma stub_server_findings:
  "stub_server auth projects findings patch h
     (findings_request demo_runtime (JStr (lit ''acme.sub'')) token filter_text) = findings"
  by (simp add: stub_server_def findings_request_def suffix_to_prefix py_str_def lit_def
        API_URL_def)

lemma demo_findings_run:
  "get_findings_with_tag demo_runtime
       (stub_server demo_token (listing [demo_project]) (listing fs) patch)
       project_uuid tag None s =
     (case py_len (JArr fs) of Inr n \<Rightarrow>
     (Inr (JArr fs, JStr (lit ''acme.sub'')),
      \<lparr>reqs = reqs s @
         [token_request demo_runtime,
          projects_request demo_runtime (JStr (lit ''T'')) project_uuid,
          token_request demo_runtime,
          findings_request demo_runtime (JStr (lit ''acme.sub'')) (JStr (lit ''T''))
            (lit ''context.type==CONTEXT_TYPE_MAIN and spec.project_uuid=='' @ project_uuid
               @ lit '' and meta.tags CONTAINS '' @ [DQUOTE] @ tag @ [DQUOTE])],
       out = out s @
         [lit ''Project namespace: acme.sub'',
          lit ''Using main context'',
          lit ''Found '' @ str_nat n @ lit '' findings with tag '' @ [SQUOTE] @ tag
            @ [SQUOTE]]\<rparr>))"
  unfolding get_findings_with_tag_after_token [OF demo_namespace_run demo_token_run]
    bind_result(1) [where m = "context_filter rt project_uuid tag branch" for rt branch,
                    OF context_filter_run]
  by (simp add: bind_send stub_server_findings)
     (simp add: listing_def ok_response_def
        response_json_def py_get_def py_len_def say_def lit_def)

text \<open>
  C5. When the listing returns no finding, the updater prints that no finding has the
  old tag, ends without an exception and without the line of the exception handler,
  and has sent no PATCH.
\<close>

theorem no_findings_no_patch:
  assumes "get_findings_with_tag rt srv project_uuid old_tag branch s =
             (Inr (JArr [], project_namespace), s1)"
  shows "try_update rt srv project_uuid old_tag new_tag branch s =
           (Inr (), say (lit ''No findings found with tag '' @ [SQUOTE] @ old_tag @ [SQUOTE]
                          @ lit '' in project '' @ project_uuid) s1)
       \<and> update_finding_tags rt srv project_uuid old_tag new_tag branch s =
           say (lit ''No findings found with tag '' @ [SQUOTE] @ old_tag @ [SQUOTE]
                  @ lit '' in project '' @ project_uuid) s1
       \<and> patches_sent (update_finding_tags rt srv project_uuid old_tag new_tag branch s) =
           patches_sent s"
proof -
  have t: "try_update rt srv project_uuid old_tag new_tag branch s =
           (Inr (), say (lit ''No findings found with tag '' @ [SQUOTE] @ old_tag @ [SQUOTE]
                          @ lit '' in project '' @ project_uuid) s1)"
    unfolding try_update_def
      bind_result(1) [where m = "get_findings_with_tag rt srv project_uuid old_tag branch"
                        and s = s, OF assms]
    by (simp add: py_bool_def)
  from patches_sent_get_findings_with_tag [of rt srv project_uuid old_tag branch s] assms
  have "patches_sent s1 = patches_sent s" by simp
  with t show ?thesis by (simp add: update_finding_tags_def)
qed

theorem no_findings_no_patch_witness:
  "update_finding_tags demo_runtime
       (stub_server demo_token (listing [demo_project]) (listing []) second_patch_fails)
       (lit ''uuid1'') (lit ''dev-repo'') (lit ''prod-repo'') None initial =
     \<lparr>reqs =
        [token_request demo_runtime,
         projects_request demo_runtime (JStr (lit ''T'')) (lit ''uuid1''),
         token_request demo_runtime,
         findings_request demo_runtime (JStr (lit ''acme.sub'')) (JStr (lit ''T''))
           (lit ''context.type==CONTEXT_TYPE_MAIN and spec.project_uuid==uuid1 and meta.tags CONTAINS ''
              @ [DQUOTE] @ lit ''dev-repo'' @ [DQUOTE])],
      out =
        [lit ''Project namespace: acme.sub'',
         lit ''Using main context'',
         lit ''Found 0 findings with tag '' @ [SQUOTE] @ lit ''dev-repo'' @ [SQUOTE],
         lit ''No findings found with tag '' @ [SQUOTE] @ lit ''dev-repo'' @ [SQUOTE]
           @ lit '' in project uuid1'']\<rparr> \<and>
   patches_sent (update_finding_tags demo_runtime
       (stub_server demo_token (listing [demo_project]) (listing []) second_patch_fails)
       (lit ''uuid1'') (lit ''dev-repo'') (lit ''prod-repo'') None initial) = []"
proof -
  let ?srv = "stub_server demo_token (listing [demo_project]) (listing []) second_patch_fails"
  let ?s1 = "\<lparr>reqs = reqs initial @
         [token_request demo_runtime,
          projects_request demo_runtime (JStr (lit ''T'')) (lit ''uuid1''),
          token_request demo_runtime,
          findings_request demo_runtime (JStr (lit ''acme.sub'')) (JStr (lit ''T''))
            (lit ''context.type==CONTEXT_TYPE_MAIN and spec.project_uuid=='' @ lit ''uuid1''
               @ lit '' and meta.tags CONTAINS '' @ [DQUOTE] @ lit ''dev-repo'' @ [DQUOTE])],
       out = out initial @
         [lit ''Project namespace: acme.sub'',
          lit ''Using main context'',
          lit ''Found '' @ str_nat 0 @ lit '' findings with tag '' @ [SQUOTE] @ lit ''dev-repo''
            @ [SQUOTE]]\<rparr>"
  have g: "get_findings_with_tag demo_runtime ?srv (lit ''uuid1'') (lit ''dev-repo'') None initial
             = (Inr (JArr [], JStr (lit ''acme.sub'')), ?s1)"
    by (simp add: demo_findings_run py_len_def)
  from no_findings_no_patch [OF g, of "lit ''prod-repo''"] show ?thesis
    by (simp add: say_def initial_def patches_sent_def str_nat_digit lit_def)
qed

subsection \<open>The loop over the findings\<close>





lemma method_of_finding_patch [simp]:
  "method_of (finding_patch url headers old_tag new_tag finding) = PATCH"
  by (simp add: finding_patch_def)

lemma well_formed_demo_finding [simp]: "well_formed (demo_finding u ts)"
  by (simp add: well_formed_def tags_of_def py_get_def demo_finding_def lit_def)

lemma uuid_of_demo_finding [simp]: "uuid_of (demo_finding u ts) = JStr (lit u)"
  by (simp add: uuid_of_def py_get_def demo_finding_def lit_def)



subsection \<open>The exit status\<close>

text \<open>On a stream that writes every text, the functions on a stream are the functions above.\<close>

lemma print_to_writable:
  assumes "\<And>h line. stdout h line = None"
  shows "print_to stdout line = print line"
  by (rule ext) (simp add: print_to_def assms)

lemma get_project_namespace_on_writable:
  assumes "\<And>h line. stdout h line = None"
  shows "get_project_namespace_on stdout rt srv project_uuid
           = get_project_namespace rt srv project_uuid"
  by (simp only: get_project_namespace_on_def get_project_namespace_def
        print_to_writable [OF assms])

lemma context_filter_on_writable:
  assumes "\<And>h line. stdout h line = None"
  shows "context_filter_on stdout rt project_uuid tag branch
           = context_filter rt project_uuid tag branch"
  by (simp only: context_filter_on_def context_filter_def print_to_writable [OF assms])

lemma get_findings_with_tag_on_writable:
  assumes "\<And>h line. stdout h line = None"
  shows "get_findings_with_tag_on stdout rt srv project_uuid tag branch
           = get_findings_with_tag rt srv project_uuid tag branch"
  by (simp only: get_findings_with_tag_on_def get_findings_with_tag_def
        print_to_writable [OF assms] get_project_namespace_on_writable [OF assms]
        context_filter_on_writable [OF assms])

lemma recompute_tags_on_writable:
  assumes "\<And>h line. stdout h line = None"
  shows "recompute_tags_on stdout rt old_tag new_tag finding_uuid existing_tags
           = recompute_tags rt old_tag new_tag finding_uuid existing_tags"
  by (simp only: recompute_tags_on_def recompute_tags_def print_to_writable [OF assms])

lemma update_one_on_writable:
  assumes "\<And>h line. stdout h line = None"
  shows "update_one_on stdout rt srv url headers old_tag new_tag finding updated_count
           = update_one rt srv url headers old_tag new_tag finding updated_count"
  by (simp only: update_one_on_def update_one_def print_to_writable [OF assms]
        recompute_tags_on_writable [OF assms])

lemma update_loop_on_writable:
  assumes "\<And>h line. stdout h line = None"
  shows "update_loop_on stdout rt srv url headers old_tag new_tag fs updated_count
           = update_loop rt srv url headers old_tag new_tag fs updated_count"
proof (induction fs arbitrary: updated_count)
  case Nil
  show ?case by (simp only: update_loop_on.simps update_loop.simps)
next
  case (Cons f fs)
  have "update_loop_on stdout rt srv url headers old_tag new_tag fs
          = update_loop rt srv url headers old_tag new_tag fs"
    by (rule ext) (rule Cons.IH)
  then show ?case
    by (simp only: update_loop_on.simps update_loop.simps update_one_on_writable [OF assms])
qed

lemma try_update_on_writable:
  assumes "\<And>h line. stdout h line = None"
  shows "try_update_on stdout rt srv project_uuid old_tag new_tag branch
           = try_update rt srv project_uuid old_tag new_tag branch"
  by (simp only: try_update_on_def try_update_def print_to_writable [OF assms]
        get_findings_with_tag_on_writable [OF assms] update_loop_on_writable [OF assms])

lemma update_finding_tags_on_writable:
  assumes "\<And>h line. stdout h line = None"
  shows "update_finding_tags_on stdout rt srv project_uuid old_tag new_tag branch s
           = (Inr (), update_finding_tags rt srv project_uuid old_tag new_tag branch s)"
  by (simp add: update_finding_tags_on_def update_finding_tags_def
        try_update_on_writable [OF assms] print_to_writable [OF assms]
        split: prod.splits sum.splits)

lemma main_parse_exit: "main stdout rt srv (SystemExit code) s = (code, s)"
  by (simp add: main_def)

lemma reqs_print_to [simp]: "reqs (snd (print_to stdout line s)) = reqs s"
  by (simp add: print_to_def split: option.splits)

lemma main_invalid:
  assumes "validate_tag old_tag (lit ''Old tag'') \<noteq> Inr True
             \<or> validate_tag new_tag (lit ''New tag'') \<noteq> Inr True"
  shows "fst (main stdout rt srv (Namespace old_tag new_tag project_uuid branch) s) = 1
       \<and> reqs (snd (main stdout rt srv (Namespace old_tag new_tag project_uuid branch) s))
           = reqs s"
proof -
  from validate_tag_result [of old_tag "lit ''Old tag''"]
       validate_tag_result [of new_tag "lit ''New tag''"] assms
  show ?thesis by (auto simp add: main_def bind_lift)
qed

lemma main_valid:
  assumes "\<And>h line. stdout h line = None"
    and "validate_tag old_tag (lit ''Old tag'') = Inr True"
    and "validate_tag new_tag (lit ''New tag'') = Inr True"
  shows "main stdout rt srv (Namespace old_tag new_tag project_uuid branch) s =
     (0, say ([CHECK_MARK] @ lit '' Findings processed!'')
           (update_finding_tags rt srv project_uuid old_tag new_tag branch
              (say (lit ''Removing tag '' @ [SQUOTE] @ old_tag @ [SQUOTE]
                      @ lit '' and adding tag '' @ [SQUOTE] @ new_tag @ [SQUOTE]
                      @ lit '' to findings...'' @ [NEWLINE])
                 (say (lit ''Processing findings in project UUID: '' @ project_uuid) s))))"
  using assms(2,3)
  by (simp add: main_def print_to_writable [OF assms(1)] bind_def
        update_finding_tags_on_writable [OF assms(1)])

lemma try_update_on_token_fails:
  assumes "get_token rt srv s = (Inl e, s')"
  shows "try_update_on stdout rt srv project_uuid old_tag new_tag branch s = (Inl e, s')"
  by (simp add: try_update_on_def get_findings_with_tag_on_def get_project_namespace_on_def
        bind_result(2) [where m = "get_token rt srv" and s = s, OF assms])

lemma validate_tag_demo:
  "validate_tag (lit ''dev-repo'') tag_name = Inr True"
  "validate_tag (lit ''prod-repo'') tag_name = Inr True"
  "validate_tag (lit ''bad tag'') tag_name \<noteq> Inr True"
  by (simp_all add: validate_tag_def re_match_valid_pattern_def at_dollar_def lit_def
        tag_char_def NEWLINE_def)

lemma writable_stdout: "writable_stdout h line = None"
  by (simp add: writable_stdout_def)

lemma print_to_latin1:
  "list_all (\<lambda>c. c < 256) line \<Longrightarrow> print_to latin1_stdout line s = (Inr (), say line s)"
  "\<not> list_all (\<lambda>c. c < 256) line \<Longrightarrow>
     print_to latin1_stdout line s = (Inl (ValueError (lit ''codec cannot encode character'')), s)"
  by (simp_all add: print_to_def latin1_stdout_def)

text \<open>
  C4, amended. When \<open>parse_args\<close> returned the arguments and the standard output
  writes every text: the exit status is 1 when the validation of the old or of the new
  tag fails, and 0 otherwise. When it is 1, no request was sent. When it is 0 and the
  \<open>try\<close> block of \<open>update_finding_tags\<close> ended with an exception, the handler printed
  the line with the UUID of the project and the message of the exception, and the
  script went on to its last line.
\<close>

theorem main_exit_status:
  assumes "\<And>h line. stdout h line = None"
  shows
  "fst (main stdout rt srv (Namespace old_tag new_tag project_uuid branch) s) =
     (if validate_tag old_tag (lit ''Old tag'') = Inr True
         \<and> validate_tag new_tag (lit ''New tag'') = Inr True then 0 else 1)
   \<and> (fst (main stdout rt srv (Namespace old_tag new_tag project_uuid branch) s) = 1
        \<longrightarrow> reqs (snd (main stdout rt srv (Namespace old_tag new_tag project_uuid branch) s))
              = reqs s)
   \<and> (\<forall>e s'. fst (main stdout rt srv (Namespace old_tag new_tag project_uuid branch) s) = 0
          \<and> try_update_on stdout rt srv project_uuid old_tag new_tag branch
               (say (lit ''Removing tag '' @ [SQUOTE] @ old_tag @ [SQUOTE]
                       @ lit '' and adding tag '' @ [SQUOTE] @ new_tag @ [SQUOTE]
                       @ lit '' to findings...'' @ [NEWLINE])
                  (say (lit ''Processing findings in project UUID: '' @ project_uuid) s))
              = (Inl e, s')
        \<longrightarrow> snd (main stdout rt srv (Namespace old_tag new_tag project_uuid branch) s) =
              say ([CHECK_MARK] @ lit '' Findings processed!'')
                (say ([CROSS_MARK] @ lit '' Error updating findings in project '' @ project_uuid
                        @ lit '': '' @ str_error rt e) s'))"
proof (cases "validate_tag old_tag (lit ''Old tag'') = Inr True
         \<and> validate_tag new_tag (lit ''New tag'') = Inr True")
  case True
  then show ?thesis
    by (auto simp add: main_valid [OF assms] update_finding_tags_def
          try_update_on_writable [OF assms])
next
  case False
  then have "validate_tag old_tag (lit ''Old tag'') \<noteq> Inr True
             \<or> validate_tag new_tag (lit ''New tag'') \<noteq> Inr True" by simp
  from main_invalid [OF this, of stdout rt srv project_uuid branch s] False
  show ?thesis by auto
qed

theorem main_exit_status_witness:
  "fst (main writable_stdout demo_runtime demo_server
          (Namespace (lit ''bad tag'') (lit ''prod-repo'') (lit ''uuid1'') None) initial) = 1 \<and>
   reqs (snd (main writable_stdout demo_runtime demo_server
          (Namespace (lit ''bad tag'') (lit ''prod-repo'') (lit ''uuid1'') None) initial)) = [] \<and>
   fst (main writable_stdout demo_runtime demo_server
          (Namespace (lit ''dev-repo'') (lit ''prod-repo'') (lit ''uuid1'') None) initial) = 0 \<and>
   main writable_stdout demo_runtime
       (stub_server (status_response 401 (lit ''unauthorized'')) (listing []) (listing [])
          second_patch_fails)
       (Namespace (lit ''dev-repo'') (lit ''prod-repo'') (lit ''uuid1'') None) initial =
     (0, \<lparr>reqs = [token_request demo_runtime],
          out = [lit ''Processing findings in project UUID: uuid1'',
                 lit ''Removing tag '' @ [SQUOTE] @ lit ''dev-repo'' @ [SQUOTE]
                   @ lit '' and adding tag '' @ [SQUOTE] @ lit ''prod-repo'' @ [SQUOTE]
                   @ lit '' to findings...'' @ [NEWLINE],
                 [CROSS_MARK] @ lit '' Error updating findings in project uuid1: ''
                   @ lit ''Failed to get token: 401, unauthorized'',
                 [CHECK_MARK] @ lit '' Findings processed!'']\<rparr>)"
proof -
  let ?deny = "stub_server (status_response 401 (lit ''unauthorized'')) (listing []) (listing [])
                 second_patch_fails"
  let ?bad = "Namespace (lit ''bad tag'') (lit ''prod-repo'') (lit ''uuid1'') None"
  let ?good = "Namespace (lit ''dev-repo'') (lit ''prod-repo'') (lit ''uuid1'') None"
  let ?banner = "say (lit ''Removing tag '' @ [SQUOTE] @ lit ''dev-repo'' @ [SQUOTE]
                       @ lit '' and adding tag '' @ [SQUOTE] @ lit ''prod-repo'' @ [SQUOTE]
                       @ lit '' to findings...'' @ [NEWLINE])
                  (say (lit ''Processing findings in project UUID: '' @ lit ''uuid1'') initial)"
  let ?e = "Exception (lit ''Failed to get token: 401, unauthorized'')"
  let ?s' = "?banner\<lparr>reqs := reqs ?banner @ [token_request demo_runtime]\<rparr>"
  note bad = main_exit_status [where stdout = writable_stdout and rt = demo_runtime and srv = demo_server
                   and old_tag = "lit ''bad tag''" and new_tag = "lit ''prod-repo''"
                   and project_uuid = "lit ''uuid1''" and branch = None and s = initial,
                 OF writable_stdout]
  from bad have 1: "fst (main writable_stdout demo_runtime demo_server ?bad initial) = 1"
    by (simp add: validate_tag_demo)
  with bad have 2: "reqs (snd (main writable_stdout demo_runtime demo_server ?bad initial)) = []"
    by (simp add: initial_def)
  from main_exit_status [where stdout = writable_stdout and rt = demo_runtime and srv = demo_server
             and old_tag = "lit ''dev-repo''" and new_tag = "lit ''prod-repo''"
             and project_uuid = "lit ''uuid1''" and branch = None and s = initial,
           OF writable_stdout]
  have 3: "fst (main writable_stdout demo_runtime demo_server ?good initial) = 0"
    by (simp add: validate_tag_demo)
  have "get_token demo_runtime ?deny ?banner = (Inl ?e, ?s')"
    by (simp add: get_token_run stub_server_def status_response_def str_nat_401 lit_def)
  then have t: "try_update_on writable_stdout demo_runtime ?deny (lit ''uuid1'')
                  (lit ''dev-repo'') (lit ''prod-repo'') None ?banner = (Inl ?e, ?s')"
    by (rule try_update_on_token_fails)
  note deny = main_exit_status [where stdout = writable_stdout and rt = demo_runtime and srv = ?deny
                    and old_tag = "lit ''dev-repo''" and new_tag = "lit ''prod-repo''"
                    and project_uuid = "lit ''uuid1''" and branch = None and s = initial,
                  OF writable_stdout]
  from deny have 4: "fst (main writable_stdout demo_runtime ?deny ?good initial) = 0"
    by (simp add: validate_tag_demo)
  from deny 4 t have "snd (main writable_stdout demo_runtime ?deny ?good initial) =
              say ([CHECK_MARK] @ lit '' Findings processed!'')
                (say ([CROSS_MARK] @ lit '' Error updating findings in project '' @ lit ''uuid1''
                        @ lit '': '' @ str_error demo_runtime ?e) ?s')"
    by blast
  with 4 have 5: "main writable_stdout demo_runtime ?deny ?good initial =
     (0, \<lparr>reqs = [token_request demo_runtime],
          out = [lit ''Processing findings in project UUID: uuid1'',
                 lit ''Removing tag '' @ [SQUOTE] @ lit ''dev-repo'' @ [SQUOTE]
                   @ lit '' and adding tag '' @ [SQUOTE] @ lit ''prod-repo'' @ [SQUOTE]
                   @ lit '' to findings...'' @ [NEWLINE],
                 [CROSS_MARK] @ lit '' Error updating findings in project uuid1: ''
                   @ lit ''Failed to get token: 401, unauthorized'',
                 [CHECK_MARK] @ lit '' Findings processed!'']\<rparr>)"
    by (simp add: prod_eq_iff say_def initial_def str_error_def lit_def)
  from 1 2 3 5 show ?thesis by blast
qed

text \<open>
  C4, the claim as it is worded fails twice. When \<open>parse_args\<close> ends the process (a
  required flag is missing), the exit status is the 2 of \<open>argparse\<close>, and no tag was
  validated. And with two valid tags, a token request answered with 401 and a standard
  output in Latin-1, the exit status is 1: the exception of \<open>get_token\<close> is caught, but
  the line of the handler starts with a character that the stream cannot encode, so
  its \<open>print\<close> raises outside any \<open>try\<close>.
\<close>

theorem exit_status_outside_validation:
  "fst (main writable_stdout demo_runtime demo_server (SystemExit 2) initial) = 2 \<and>
   validate_tag (lit ''dev-repo'') (lit ''Old tag'') = Inr True \<and>
   validate_tag (lit ''prod-repo'') (lit ''New tag'') = Inr True \<and>
   fst (main latin1_stdout demo_runtime
          (stub_server (status_response 401 (lit ''unauthorized'')) (listing []) (listing [])
             second_patch_fails)
          (Namespace (lit ''dev-repo'') (lit ''prod-repo'') (lit ''uuid1'') None) initial) = 1"
proof -
  let ?deny = "stub_server (status_response 401 (lit ''unauthorized'')) (listing []) (listing [])
                 second_patch_fails"
  let ?l1 = "lit ''Processing findings in project UUID: '' @ lit ''uuid1''"
  let ?l2 = "lit ''Removing tag '' @ [SQUOTE] @ lit ''dev-repo'' @ [SQUOTE]
               @ lit '' and adding tag '' @ [SQUOTE] @ lit ''prod-repo'' @ [SQUOTE]
               @ lit '' to findings...'' @ [NEWLINE]"
  let ?banner = "say ?l2 (say ?l1 initial)"
  let ?e = "Exception (lit ''Failed to get token: 401, unauthorized'')"
  let ?s' = "?banner\<lparr>reqs := reqs ?banner @ [token_request demo_runtime]\<rparr>"
  have p1: "print_to latin1_stdout ?l1 initial = (Inr (), say ?l1 initial)"
    by (rule print_to_latin1(1)) (simp add: lit_def)
  have p2: "print_to latin1_stdout ?l2 (say ?l1 initial) = (Inr (), ?banner)"
    by (rule print_to_latin1(1)) (simp add: lit_def SQUOTE_def NEWLINE_def)
  have "get_token demo_runtime ?deny ?banner = (Inl ?e, ?s')"
    by (simp add: get_token_run stub_server_def status_response_def str_nat_401 lit_def)
  then have t: "try_update_on latin1_stdout demo_runtime ?deny (lit ''uuid1'')
                  (lit ''dev-repo'') (lit ''prod-repo'') None ?banner = (Inl ?e, ?s')"
    by (rule try_update_on_token_fails)
  have u: "update_finding_tags_on latin1_stdout demo_runtime ?deny (lit ''uuid1'')
             (lit ''dev-repo'') (lit ''prod-repo'') None ?banner
           = (Inl (ValueError (lit ''codec cannot encode character'')), ?s')"
    unfolding update_finding_tags_on_def t
    by (simp add: print_to_latin1(2) CROSS_MARK_def)
  have v: "bind (lift (validate_tag (lit ''dev-repo'') (lit ''Old tag''))) (\<lambda>_.
                  lift (validate_tag (lit ''prod-repo'') (lit ''New tag''))) initial
             = (Inr True, initial)"
    by (simp add: validate_tag_demo)
  have chain: "bind (print_to latin1_stdout ?l1) (\<lambda>_.
               bind (print_to latin1_stdout ?l2) (\<lambda>_.
               bind (update_finding_tags_on latin1_stdout demo_runtime ?deny (lit ''uuid1'')
                       (lit ''dev-repo'') (lit ''prod-repo'') None) (\<lambda>_.
               print_to latin1_stdout ([CHECK_MARK] @ lit '' Findings processed!'')))) initial
             = (Inl (ValueError (lit ''codec cannot encode character'')), ?s')"
    by (simp only:
          bind_result(1) [where m = "print_to latin1_stdout ?l1" and s = initial, OF p1]
          bind_result(1) [where m = "print_to latin1_stdout ?l2" and s = "say ?l1 initial", OF p2]
          bind_result(2) [where m = "update_finding_tags_on latin1_stdout demo_runtime ?deny
             (lit ''uuid1'') (lit ''dev-repo'') (lit ''prod-repo'') None" and s = ?banner, OF u])
  have "fst (main latin1_stdout demo_runtime ?deny
          (Namespace (lit ''dev-repo'') (lit ''prod-repo'') (lit ''uuid1'') None) initial) = 1"
    by (simp only: main_def parsed.case v chain prod.case sum.case fst_conv)
  then show ?thesis by (simp add: main_parse_exit validate_tag_demo)
qed

end
